theory Spec2Isabelle
  imports Main
begin

section \<open>The weather service of weather_plus_app and its response cache\<close>

text \<open>
  The theory embeds \<^verbatim>\<open>src/weather_api.py\<close> (class \<^verbatim>\<open>WeatherAPI\<close>) and the cache
  settings of \<^verbatim>\<open>src/config.py\<close>. Python mutates \<^verbatim>\<open>self._cache\<close> in place; here every
  function takes the cache (or the whole world) and returns the new one. Python names
  that start with an underscore lose it: \<^verbatim>\<open>_cache_data\<close> is \<open>cache_data\<close>,
  \<^verbatim>\<open>_get_cached_data\<close> is \<open>get_cached_data\<close>.
\<close>

subsection \<open>Time\<close>

text \<open>
  \<^verbatim>\<open>datetime.now()\<close> has a resolution of one microsecond, and the difference of two
  readings is an exact \<^verbatim>\<open>timedelta\<close>. A reading is the number of microseconds since a
  fixed origin; the wall clock may jump backwards, so a difference may be negative.
  The clock is outside the program: each reading is an argument of the function that takes it.
\<close>

type_synonym time = int

definition timedelta_seconds :: "int \<Rightarrow> time" where
  "timedelta_seconds s = s * 1000000"

subsection \<open>Configuration (config.py)\<close>

record cache_config =
  ENABLED :: bool
  CACHE_DURATION :: int
  MAX_CACHE_SIZE :: nat

definition CACHE_CONFIG :: cache_config where
  "CACHE_CONFIG = \<lparr>ENABLED = True, CACHE_DURATION = 300, MAX_CACHE_SIZE = 100\<rparr>"

subsection \<open>Strings\<close>

text \<open>
  A Python \<^verbatim>\<open>str\<close> is a sequence of Unicode code points. The city the user types, the
  cache keys made from it and the rendered coordinates are lists of code points, so that
  every city text is covered, whatever its script. The string literals of the source are
  all ASCII; \<open>str\<close> gives the code points of one. The texts the program only passes on
  (the messages of exceptions, the field names of the weather record) stay HOL strings.
\<close>

type_synonym codepoint = nat

type_synonym pystr = "codepoint list"

definition str :: "string \<Rightarrow> pystr" where
  "str s = map of_char s"

subsection \<open>The cache\<close>

text \<open>
  \<^verbatim>\<open>self._cache\<close> is a dict from key strings to entries
  \<^verbatim>\<open>{"data": ..., "timestamp": ...}\<close>.
\<close>

record 'v cache_entry =
  data :: 'v
  timestamp :: time

type_synonym 'v cache = "pystr \<rightharpoonup> 'v cache_entry"

text \<open>\<^verbatim>\<open>_cache_data(key, data)\<close>; \<open>now\<close> is the reading of \<^verbatim>\<open>datetime.now()\<close>.\<close>

definition cache_data :: "time \<Rightarrow> pystr \<Rightarrow> 'v \<Rightarrow> 'v cache \<Rightarrow> 'v cache" where
  "cache_data now key d c = c(key \<mapsto> \<lparr>data = d, timestamp = now\<rparr>)"

text \<open>
  \<^verbatim>\<open>_get_cached_data(key)\<close>: the result is \<open>None\<close> where Python returns \<^verbatim>\<open>None\<close>, and
  the second component is the cache the call leaves behind.
\<close>

definition get_cached_data :: "time \<Rightarrow> pystr \<Rightarrow> 'v cache \<Rightarrow> 'v option \<times> 'v cache" where
  "get_cached_data now key c =
     (case c key of
        None \<Rightarrow> (None, c)
      | Some entry \<Rightarrow>
          (let cache_age = now - timestamp entry
           in if cache_age > timedelta_seconds 300
              then (None, c(key := None))
              else (Some (data entry), c)))"

text \<open>A run of \<^verbatim>\<open>_cache_data\<close> calls, each with its own clock reading, oldest first.\<close>

fun cache_all :: "(time \<times> pystr \<times> 'v) list \<Rightarrow> 'v cache \<Rightarrow> 'v cache" where
  "cache_all [] c = c"
| "cache_all ((now, key, d) # ps) c = cache_all ps (cache_data now key d c)"

subsection \<open>The string methods the client calls\<close>

text \<open>
  \<^verbatim>\<open>str.strip()\<close> without an argument removes white space from both ends. White space
  is what \<^verbatim>\<open>str.isspace()\<close> accepts: the code points of bidirectional type WS, B or S
  and those of category Zs, which are U+0009 to U+000D, U+001C to U+0020, U+0085,
  U+00A0, U+1680, U+2000 to U+200A, U+2028, U+2029, U+202F, U+205F and U+3000.
\<close>

definition isspace :: "codepoint \<Rightarrow> bool" where
  "isspace c =
     ((0x09 \<le> c \<and> c \<le> 0x0D) \<or> (0x1C \<le> c \<and> c \<le> 0x20) \<or> c = 0x85 \<or> c = 0xA0 \<or>
      c = 0x1680 \<or> (0x2000 \<le> c \<and> c \<le> 0x200A) \<or> c = 0x2028 \<or> c = 0x2029 \<or>
      c = 0x202F \<or> c = 0x205F \<or> c = 0x3000)"

definition strip :: "pystr \<Rightarrow> pystr" where
  "strip s = rev (dropWhile isspace (rev (dropWhile isspace s)))"

text \<open>
  \<^verbatim>\<open>str.lower()\<close>. On a string of ASCII code points only, CPython changes \<^verbatim>\<open>A-Z\<close> to
  \<^verbatim>\<open>a-z\<close> and nothing else. On any other string it goes through the code points from
  left to right: the capital sigma U+03A3 becomes the final small sigma U+03C2 when a
  cased letter stands before it and none after it, case-ignorable code points skipped
  on both sides, and the small sigma U+03C3 otherwise; every other code point becomes its
  full lower-case mapping, which may be more than one code point. The mapping and the
  two properties come from the Unicode database compiled into the interpreter, which
  is not part of the repository: it is the parameter \<open>ucd\<close>.
\<close>

record unicode_data =
  ToLowerFull :: "codepoint \<Rightarrow> codepoint list"
  IsCased :: "codepoint \<Rightarrow> bool"
  IsCaseIgnorable :: "codepoint \<Rightarrow> bool"

definition is_ascii :: "pystr \<Rightarrow> bool" where
  "is_ascii s = list_all (\<lambda>c. c < 128) s"

definition ascii_lower :: "codepoint \<Rightarrow> codepoint" where
  "ascii_lower c = (if 65 \<le> c \<and> c \<le> 90 then c + 32 else c)"

definition final_sigma :: "unicode_data \<Rightarrow> pystr \<Rightarrow> pystr \<Rightarrow> bool" where
  "final_sigma ucd before after =
     ((case dropWhile (IsCaseIgnorable ucd) (rev before) of
         [] \<Rightarrow> False
       | c # cs \<Rightarrow> IsCased ucd c) \<and>
      (case dropWhile (IsCaseIgnorable ucd) after of
         [] \<Rightarrow> True
       | c # cs \<Rightarrow> \<not> IsCased ucd c))"

fun do_lower :: "unicode_data \<Rightarrow> pystr \<Rightarrow> pystr \<Rightarrow> pystr" where
  "do_lower ucd before [] = []"
| "do_lower ucd before (c # after) =
     (if c = 0x3A3 then [if final_sigma ucd before after then 0x3C2 else 0x3C3]
      else ToLowerFull ucd c)
     @ do_lower ucd (before @ [c]) after"

definition lower :: "unicode_data \<Rightarrow> pystr \<Rightarrow> pystr" where
  "lower ucd s = (if is_ascii s then map ascii_lower s else do_lower ucd [] s)"

subsection \<open>Cache keys\<close>

text \<open>\<^verbatim>\<open>cache_key = f"city_{city.lower()}"\<close> (line 30).\<close>

definition city_key :: "unicode_data \<Rightarrow> pystr \<Rightarrow> pystr" where
  "city_key ucd city = str ''city_'' @ lower ucd city"

text \<open>
  \<^verbatim>\<open>cache_key = f"coords_{lat}_{lon}"\<close> (line 63). The replacement fields have no format
  specification, so each value is rendered by \<^verbatim>\<open>format(value, "")\<close>, which for a float
  is its \<^verbatim>\<open>repr\<close>: the shortest decimal text that reads back as the same float. That
  rendering belongs to the interpreter and to IEEE arithmetic; it is the parameter
  \<open>fmt\<close>, and \<open>'f\<close> is the type of the coordinates.
\<close>

definition coords_key :: "('f \<Rightarrow> pystr) \<Rightarrow> 'f \<Rightarrow> 'f \<Rightarrow> pystr" where
  "coords_key fmt lat lon = str ''coords_'' @ fmt lat @ str ''_'' @ fmt lon"

subsection \<open>What the specification says of the keys\<close>

text \<open>
  The specification calls two city strings equal up to letter case, as \<^verbatim>\<open>London\<close> and
  \<^verbatim>\<open>london\<close> are. The relation is written here without the program's lower-casing: a
  small letter is sent to its capital, and two strings are equal up to letter case
  when that makes them the same string. The capitals are those of the Basic Latin
  alphabet (\<^verbatim>\<open>a-z\<close> to \<^verbatim>\<open>A-Z\<close>) and of the Greek alphabet (U+03B1 to U+03C9 to U+0391 to
  U+03A9; both small sigmas, U+03C2 and U+03C3, have the capital U+03A3). Strings with
  letters of other alphabets are related only when they are the same string.
\<close>

definition capital :: "codepoint \<Rightarrow> codepoint" where
  "capital c =
     (if 0x61 \<le> c \<and> c \<le> 0x7A then c - 32
      else if c = 0x3C2 then 0x3A3
      else if 0x3B1 \<le> c \<and> c \<le> 0x3C9 then c - 32
      else c)"

definition equal_up_to_case :: "pystr \<Rightarrow> pystr \<Rightarrow> bool" where
  "equal_up_to_case s t = (map capital s = map capital t)"

text \<open>
  The specification has the coordinates formatted with fixed precision: every rendered
  value would have the same number of digits after the decimal point. \<open>fraction_digits\<close>
  counts them: the code points after the first full stop (U+002E), none when there is
  no full stop.
\<close>

definition fraction_digits :: "pystr \<Rightarrow> nat" where
  "fraction_digits s = length (drop 1 (dropWhile (\<lambda>c. c \<noteq> 0x2E) s))"

subsection \<open>The upstream request\<close>

text \<open>
  The weather record is a Python dict, kept as the list of its items; a dict is falsy
  exactly when it has no item.
\<close>

type_synonym 'a pydict = "(string \<times> 'a) list"

text \<open>
  What a call raises: \<^verbatim>\<open>WeatherAPIError\<close> with its message, or any other exception,
  which no handler of the class catches.
\<close>

datatype exn = WeatherAPIError string | OtherError string

text \<open>The \<^verbatim>\<open>params\<close> of the request: \<^verbatim>\<open>q\<close> for a city, \<^verbatim>\<open>lat\<close> and \<^verbatim>\<open>lon\<close> for coordinates.\<close>

datatype 'f request = CityQuery pystr | CoordsQuery 'f 'f

text \<open>
  The decoded body \<^verbatim>\<open>data\<close>, as far as the callers look at it:
  \<^verbatim>\<open>data.get("cod") == 200\<close>, the text of \<^verbatim>\<open>data.get('message', 'Unknown error')\<close>, and
  what \<^verbatim>\<open>_process_weather_data(data)\<close> comes to. That function indexes the body
  (\<^verbatim>\<open>raw_data["weather"][0]\<close>, \<^verbatim>\<open>main["temp"]\<close>, ...) and builds the record; it raises
  (\<^verbatim>\<open>KeyError\<close>, \<^verbatim>\<open>IndexError\<close>, \<^verbatim>\<open>TypeError\<close>) on a body of another shape, which is
  \<open>Inl\<close> with the text of the exception.
\<close>

record 'a body =
  cod_is_200 :: bool
  message :: string
  processed :: "string + 'a pydict"

text \<open>
  How \<^verbatim>\<open>requests.get\<close>, \<^verbatim>\<open>raise_for_status\<close> and \<^verbatim>\<open>response.json\<close> end, by the first
  \<^verbatim>\<open>except\<close> clause of \<^verbatim>\<open>get_weather_by_city\<close> that matches; each exception carries
  \<^verbatim>\<open>str(e)\<close>. \<open>OtherException\<close> is an exception outside
  \<^verbatim>\<open>requests.exceptions.RequestException\<close>.
\<close>

datatype 'a http_result =
    Timeout string
  | ConnectionError string
  | RequestException string
  | OtherException string
  | Json "'a body"

text \<open>
  The world a call runs in: the \<^verbatim>\<open>_cache\<close> of the \<^verbatim>\<open>WeatherAPI\<close> object, and the
  requests sent upstream so far, oldest first.
\<close>

record ('f, 'a) world =
  cache :: "'a pydict cache"
  sent :: "'f request list"

subsection \<open>The client\<close>

text \<open>
  Lines 35 to 59 of \<^verbatim>\<open>get_weather_by_city\<close>, after the lookup: \<open>http\<close> answers the
  request, \<open>now\<close> is the clock reading of \<^verbatim>\<open>_cache_data\<close>.
\<close>

definition fetch_city ::
  "unicode_data \<Rightarrow> ('f request \<Rightarrow> 'a http_result) \<Rightarrow> time \<Rightarrow> pystr \<Rightarrow> ('f, 'a) world
     \<Rightarrow> (exn + 'a pydict) \<times> ('f, 'a) world" where
  "fetch_city ucd http now city w =
     (let cache_key = city_key ucd city;
          w' = w\<lparr>sent := sent w @ [CityQuery city]\<rparr>
      in case http (CityQuery city) of
           Timeout e \<Rightarrow> (Inl (WeatherAPIError ''Request timed out. Please try again.''), w')
         | ConnectionError e \<Rightarrow> (Inl (WeatherAPIError ''No internet connection.''), w')
         | RequestException e \<Rightarrow> (Inl (WeatherAPIError (''Request failed: '' @ e)), w')
         | OtherException e \<Rightarrow> (Inl (OtherError e), w')
         | Json body \<Rightarrow>
             if cod_is_200 body then
               (case processed body of
                  Inl e \<Rightarrow> (Inl (OtherError e), w')
                | Inr processed_data \<Rightarrow>
                    (Inr processed_data,
                     w'\<lparr>cache := cache_data now cache_key processed_data (cache w')\<rparr>))
             else (Inl (WeatherAPIError (''API Error: '' @ message body)), w'))"

text \<open>
  \<^verbatim>\<open>get_weather_by_city(city)\<close>. \<open>cfg\<close> is the module's \<^verbatim>\<open>CACHE_CONFIG\<close>, \<open>now1\<close> the
  clock reading of the lookup and \<open>now2\<close> that of the store. The source never reads
  \<^verbatim>\<open>CACHE_CONFIG\<close>, and neither does the definition.
\<close>

definition get_weather_by_city ::
  "cache_config \<Rightarrow> unicode_data \<Rightarrow> ('f request \<Rightarrow> 'a http_result) \<Rightarrow> time \<Rightarrow> time \<Rightarrow> pystr
     \<Rightarrow> ('f, 'a) world \<Rightarrow> (exn + 'a pydict) \<times> ('f, 'a) world" where
  "get_weather_by_city cfg ucd http now1 now2 city w =
     (if strip city = [] then (Inl (WeatherAPIError ''City name cannot be empty''), w)
      else
        (let cache_key = city_key ucd city;
             (cached_data, c') = get_cached_data now1 cache_key (cache w);
             w' = w\<lparr>cache := c'\<rparr>
         in case cached_data of
              None \<Rightarrow> fetch_city ucd http now2 city w'
            | Some d \<Rightarrow> if d \<noteq> [] then (Inr d, w') else fetch_city ucd http now2 city w'))"

text \<open>Lines 68 to 86 of \<^verbatim>\<open>get_weather_by_coordinates\<close>: one handler, no test of \<^verbatim>\<open>cod\<close>.\<close>

definition fetch_coordinates ::
  "('f \<Rightarrow> pystr) \<Rightarrow> ('f request \<Rightarrow> 'a http_result) \<Rightarrow> time \<Rightarrow> 'f \<Rightarrow> 'f
     \<Rightarrow> ('f, 'a) world \<Rightarrow> (exn + 'a pydict) \<times> ('f, 'a) world" where
  "fetch_coordinates fmt http now lat lon w =
     (let cache_key = coords_key fmt lat lon;
          w' = w\<lparr>sent := sent w @ [CoordsQuery lat lon]\<rparr>
      in case http (CoordsQuery lat lon) of
           Timeout e \<Rightarrow> (Inl (WeatherAPIError (''Failed to get weather data: '' @ e)), w')
         | ConnectionError e \<Rightarrow> (Inl (WeatherAPIError (''Failed to get weather data: '' @ e)), w')
         | RequestException e \<Rightarrow> (Inl (WeatherAPIError (''Failed to get weather data: '' @ e)), w')
         | OtherException e \<Rightarrow> (Inl (OtherError e), w')
         | Json body \<Rightarrow>
             (case processed body of
                Inl e \<Rightarrow> (Inl (OtherError e), w')
              | Inr processed_data \<Rightarrow>
                  (Inr processed_data,
                   w'\<lparr>cache := cache_data now cache_key processed_data (cache w')\<rparr>)))"

text \<open>\<^verbatim>\<open>get_weather_by_coordinates(lat, lon)\<close>, with the parameters of the city lookup.\<close>

definition get_weather_by_coordinates ::
  "cache_config \<Rightarrow> ('f \<Rightarrow> pystr) \<Rightarrow> ('f request \<Rightarrow> 'a http_result) \<Rightarrow> time \<Rightarrow> time
     \<Rightarrow> 'f \<Rightarrow> 'f \<Rightarrow> ('f, 'a) world \<Rightarrow> (exn + 'a pydict) \<times> ('f, 'a) world" where
  "get_weather_by_coordinates cfg fmt http now1 now2 lat lon w =
     (let cache_key = coords_key fmt lat lon;
          (cached_data, c') = get_cached_data now1 cache_key (cache w);
          w' = w\<lparr>cache := c'\<rparr>
      in case cached_data of
           None \<Rightarrow> fetch_coordinates fmt http now2 lat lon w'
         | Some d \<Rightarrow> if d \<noteq> [] then (Inr d, w') else fetch_coordinates fmt http now2 lat lon w')"

subsection \<open>Concrete data for the examples\<close>

definition london :: "nat pydict" where
  "london = [(''city'', 1), (''temperature'', 12)]"

definition london_later :: "nat pydict" where
  "london_later = [(''city'', 1), (''temperature'', 15)]"

definition cache0 :: "nat pydict cache" where
  "cache0 = cache_data 0 (str ''city_london'') london Map.empty"

text \<open>\<open>n\<close> stores under \<open>n\<close> different keys, one microsecond apart.\<close>

definition many_keys :: "nat \<Rightarrow> (time \<times> pystr \<times> nat pydict) list" where
  "many_keys n = map (\<lambda>i. (int i, str ''city_'' @ replicate i 0x61, london)) [0..<n]"

text \<open>
  In the examples a coordinate is written as the shortest decimal literal of the float
  (\<^verbatim>\<open>51.5\<close>, \<^verbatim>\<open>-0.12\<close>, \<^verbatim>\<open>1e-07\<close>), and that literal is the text Python renders the float
  as.
\<close>

definition repr_literal :: "string \<Rightarrow> pystr" where
  "repr_literal s = str s"

text \<open>
  An excerpt of the Unicode database: the entries of the Basic Latin and Latin-1
  Supplement blocks, of the capital I with dot above U+0130, and of the letters of the
  Greek alphabet, U+0391 to U+03A9 and U+03B1 to U+03C9. A capital maps to the small
  letter 32 code points up, U+0130 to the two code points U+0069 U+0307, any other code
  point to itself. The excerpt has no entry for the code points outside these ranges,
  and the cities of the examples have none.
\<close>

definition ucd_excerpt :: unicode_data where
  "ucd_excerpt =
     \<lparr>ToLowerFull =
        (\<lambda>c. if (0x41 \<le> c \<and> c \<le> 0x5A) \<or> (0xC0 \<le> c \<and> c \<le> 0xD6) \<or> (0xD8 \<le> c \<and> c \<le> 0xDE) \<or>
                 (0x391 \<le> c \<and> c \<le> 0x3A1) \<or> (0x3A3 \<le> c \<and> c \<le> 0x3A9)
              then [c + 32]
              else if c = 0x130 then [0x69, 0x307]
              else [c]),
      IsCased =
        (\<lambda>c. (0x41 \<le> c \<and> c \<le> 0x5A) \<or> (0x61 \<le> c \<and> c \<le> 0x7A) \<or>
             c = 0xAA \<or> c = 0xB5 \<or> c = 0xBA \<or>
             (0xC0 \<le> c \<and> c \<le> 0xD6) \<or> (0xD8 \<le> c \<and> c \<le> 0xF6) \<or> (0xF8 \<le> c \<and> c \<le> 0xFF) \<or>
             c = 0x130 \<or>
             (0x391 \<le> c \<and> c \<le> 0x3A1) \<or> (0x3A3 \<le> c \<and> c \<le> 0x3A9) \<or>
             (0x3B1 \<le> c \<and> c \<le> 0x3C9)),
      IsCaseIgnorable =
        (\<lambda>c. c = 0x27 \<or> c = 0x2E \<or> c = 0x3A \<or> c = 0x5E \<or> c = 0x60 \<or>
             c = 0xA8 \<or> c = 0xAD \<or> c = 0xAF \<or> c = 0xB4 \<or> c = 0xB7 \<or> c = 0xB8)\<rparr>"

text \<open>
  The Greek word for street in capitals, U+039F U+0394 U+039F U+03A3, and in small
  letters with the sigma that is not final, U+03BF U+03B4 U+03BF U+03C3.
\<close>

definition odos_capitals :: pystr where
  "odos_capitals = [0x39F, 0x394, 0x39F, 0x3A3]"

definition odos_small :: pystr where
  "odos_small = [0x3BF, 0x3B4, 0x3BF, 0x3C3]"

text \<open>A service whose cache holds London, stored at time 0, and that has sent nothing yet.\<close>

definition world0 :: "(string, nat) world" where
  "world0 = \<lparr>cache = cache0, sent = []\<rparr>"

text \<open>An upstream that times out on every request.\<close>

definition timed_out :: "string request \<Rightarrow> nat http_result" where
  "timed_out r = Timeout ''Read timed out.''"




text \<open>The shipped configuration with the cache switched off.\<close>

definition cache_off :: cache_config where
  "cache_off = CACHE_CONFIG\<lparr>ENABLED := False\<rparr>"

definition paris :: "nat pydict" where
  "paris = [(''city'', 2), (''temperature'', 9)]"

text \<open>An upstream that answers every request with a body that processes to Paris.\<close>

definition answers :: "string request \<Rightarrow> nat http_result" where
  "answers r = Json \<lparr>cod_is_200 = True, message = [], processed = Inr paris\<rparr>"

text \<open>
  A service whose cache holds an empty dict, stored at time 0, under the key of London and
  under the key of the coordinates 51.5, -0.12.
\<close>

definition world_empty_entry :: "(string, nat) world" where
  "world_empty_entry =
     \<lparr>cache = cache_data 0 (str ''coords_51.5_-0.12'') []
                (cache_data 0 (str ''city_london'') [] Map.empty),
      sent = []\<rparr>"

text \<open>A service right after \<^verbatim>\<open>__init__\<close>: an empty cache, nothing sent.\<close>

definition world_new :: "(string, nat) world" where
  "world_new = \<lparr>cache = Map.empty, sent = []\<rparr>"

text \<open>A service whose cache holds London under the key of the coordinates 51.5, -0.12.\<close>

definition world_coords :: "(string, nat) world" where
  "world_coords =
     \<lparr>cache = cache_data 0 (str ''coords_51.5_-0.12'') london Map.empty, sent = []\<rparr>"

section \<open>String literals\<close>

lemma str_eq_iff [simp]: "str s = str t \<longleftrightarrow> s = t"
  by (simp add: str_def inj_map_eq_map inj_on_def)

lemma str_Nil [simp]: "str [] = []"
  by (simp add: str_def)

lemma str_eq_Nil [simp]: "str s = [] \<longleftrightarrow> s = []"
  by (simp add: str_def)

section \<open>Properties of the cache\<close>

lemma dom_cache_data: "dom (cache_data now k v c) = insert k (dom c)"
  by (simp add: cache_data_def)

lemma dom_cache_all: "dom (cache_all ps c) = dom c \<union> set (map (fst \<circ> snd) ps)"
  by (induction ps c rule: cache_all.induct) (auto simp: dom_cache_data)

lemma distinct_many_keys: "distinct (map (fst \<circ> snd) (many_keys n))"
  by (simp add: many_keys_def distinct_map comp_def inj_on_def)

text \<open>
  C1. A lookup of a key that is absent is a miss and leaves the cache as it is; a lookup
  of an entry older than 300 seconds is a miss and deletes that entry; any other lookup
  is a hit with the stored value and leaves the cache, the entry and its timestamp as
  they are. No lookup touches another key.
\<close>

theorem get_cached_data_cases:
  "(c k = None \<longrightarrow> get_cached_data now k c = (None, c)) \<and>
   (\<forall>e. c k = Some e \<and> now - timestamp e > timedelta_seconds 300
        \<longrightarrow> get_cached_data now k c = (None, c(k := None))) \<and>
   (\<forall>e. c k = Some e \<and> now - timestamp e \<le> timedelta_seconds 300
        \<longrightarrow> get_cached_data now k c = (Some (data e), c)) \<and>
   (\<forall>k'. k' \<noteq> k \<longrightarrow> snd (get_cached_data now k c) k' = c k')"
  by (simp add: get_cached_data_def Let_def split: option.splits)

theorem get_cached_data_cases_witness:
  "get_cached_data (timedelta_seconds 299) (str ''city_paris'') cache0 = (None, cache0) \<and>
   get_cached_data (timedelta_seconds 301) (str ''city_london'') cache0
     = (None, cache0(str ''city_london'' := None)) \<and>
   get_cached_data (timedelta_seconds 299) (str ''city_london'') cache0 = (Some london, cache0) \<and>
   snd (get_cached_data (timedelta_seconds 301) (str ''city_london'') cache0) (str ''city_paris'')
     = cache0 (str ''city_paris'')"
  using get_cached_data_cases [of cache0 "str ''city_paris''" "timedelta_seconds 299"]
        get_cached_data_cases [of cache0 "str ''city_london''" "timedelta_seconds 301"]
        get_cached_data_cases [of cache0 "str ''city_london''" "timedelta_seconds 299"]
  by (simp add: cache0_def cache_data_def timedelta_seconds_def)

text \<open>
  C2. A lookup right after a store of \<open>v\<close> under \<open>k\<close> (at any clock reading no more than
  300 seconds after the reading of the store) is a hit with exactly \<open>v\<close>.
\<close>

theorem put_then_get:
  "now' - now \<le> timedelta_seconds 300 \<Longrightarrow>
   get_cached_data now' k (cache_data now k v c) = (Some v, cache_data now k v c)"
  by (simp add: get_cached_data_def cache_data_def)

theorem put_then_get_witness:
  "(5 :: int) - 5 \<le> timedelta_seconds 300 \<and>
   get_cached_data 5 (str ''city_london'') (cache_data 5 (str ''city_london'') london Map.empty)
     = (Some london, cache_data 5 (str ''city_london'') london Map.empty)"
  using put_then_get [of 5 5 "str ''city_london''" london Map.empty]
  by (simp add: timedelta_seconds_def)

text \<open>
  C3. Two stores under the same key leave the cache the second store alone would leave:
  the entry holds the second value and the second timestamp. A lookup within 300 seconds
  of the second store is a hit with the second value, and so not with the first one when
  the two differ.
\<close>

theorem put_put_get:
  "now3 - now2 \<le> timedelta_seconds 300 \<Longrightarrow>
   cache_data now2 k v2 (cache_data now1 k v1 c) = cache_data now2 k v2 c \<and>
   cache_data now2 k v2 (cache_data now1 k v1 c) k = Some \<lparr>data = v2, timestamp = now2\<rparr> \<and>
   get_cached_data now3 k (cache_data now2 k v2 (cache_data now1 k v1 c))
     = (Some v2, cache_data now2 k v2 c) \<and>
   (v1 \<noteq> v2 \<longrightarrow>
      fst (get_cached_data now3 k (cache_data now2 k v2 (cache_data now1 k v1 c))) \<noteq> Some v1)"
  by (simp add: get_cached_data_def cache_data_def)

theorem put_put_get_witness:
  "timedelta_seconds 450 - timedelta_seconds 200 \<le> timedelta_seconds 300 \<and>
   london \<noteq> london_later \<and>
   get_cached_data (timedelta_seconds 450) (str ''city_london'')
      (cache_data (timedelta_seconds 200) (str ''city_london'') london_later
         (cache_data 0 (str ''city_london'') london Map.empty))
     = (Some london_later,
        cache_data (timedelta_seconds 200) (str ''city_london'') london_later Map.empty) \<and>
   fst (get_cached_data (timedelta_seconds 450) (str ''city_london'')
      (cache_data (timedelta_seconds 200) (str ''city_london'') london_later
         (cache_data 0 (str ''city_london'') london Map.empty))) \<noteq> Some london"
  using put_put_get [of "timedelta_seconds 450" "timedelta_seconds 200" "str ''city_london''"
      london_later 0 london Map.empty]
  by (simp add: timedelta_seconds_def london_def london_later_def cache_data_def)

text \<open>
  C8. A store changes the entry of its own key only and removes nothing; a run of stores
  removes nothing either, and after stores under \<open>n\<close> different keys into an empty cache
  there are \<open>n\<close> entries, whatever \<open>MAX_CACHE_SIZE\<close> says: 101 stores leave 101 entries.
  A lookup removes an entry only when it is the entry looked up and it is older than 300
  seconds.
\<close>

theorem no_size_eviction:
  "(k' \<noteq> k \<longrightarrow> cache_data now k v c k' = c k') \<and>
   dom c \<subseteq> dom (cache_data now k v c) \<and>
   dom c \<subseteq> dom (cache_all ps c) \<and>
   (distinct (map (fst \<circ> snd) ps) \<longrightarrow> card (dom (cache_all ps Map.empty)) = length ps) \<and>
   (c k' \<noteq> None \<and> snd (get_cached_data now' k c) k' = None \<longrightarrow>
      k' = k \<and> (\<exists>e. c k = Some e \<and> now' - timestamp e > timedelta_seconds 300))"
proof -
  have a: "distinct (map (fst \<circ> snd) ps) \<longrightarrow> card (dom (cache_all ps Map.empty)) = length ps"
    using distinct_card [of "map (fst \<circ> snd) ps"] by (simp add: dom_cache_all)
  have b: "c k' \<noteq> None \<and> snd (get_cached_data now' k c) k' = None \<longrightarrow>
      k' = k \<and> (\<exists>e. c k = Some e \<and> now' - timestamp e > timedelta_seconds 300)"
    by (auto simp: get_cached_data_def Let_def split: option.splits if_splits)
  have c: "(k' \<noteq> k \<longrightarrow> cache_data now k v c k' = c k') \<and>
   dom c \<subseteq> dom (cache_data now k v c) \<and>
   dom c \<subseteq> dom (cache_all ps c)"
    by (auto simp: dom_cache_all cache_data_def)
  from a b c show ?thesis by simp
qed

theorem no_size_eviction_witness:
  "distinct (map (fst \<circ> snd) (many_keys 101)) \<and>
   MAX_CACHE_SIZE CACHE_CONFIG < card (dom (cache_all (many_keys 101) Map.empty)) \<and>
   cache_data 7 (str ''city_paris'') london
     (cache_data 0 (str ''city_london'') london Map.empty) (str ''city_london'')
     = Some \<lparr>data = london, timestamp = 0\<rparr> \<and>
   cache0 (str ''city_london'') = Some \<lparr>data = london, timestamp = 0\<rparr> \<and>
   snd (get_cached_data (timedelta_seconds 301) (str ''city_london'') cache0) (str ''city_london'')
     = None \<and>
   timedelta_seconds 301 - 0 > timedelta_seconds 300"
  using no_size_eviction [of "str ''city_london''" "str ''city_paris''" 7 london
          "cache_data 0 (str ''city_london'') london Map.empty" "many_keys 101"]
        no_size_eviction [where k' = "str ''city_london''" and k = "str ''city_london''"
          and c = cache0 and now' = "timedelta_seconds 301"]
        distinct_many_keys [of 101]
  by (simp add: CACHE_CONFIG_def many_keys_def cache_data_def cache0_def get_cached_data_def
      timedelta_seconds_def)

section \<open>Cache keys\<close>

lemma capital_ascii_lower:
  "c < 128 \<Longrightarrow> d < 128 \<Longrightarrow> capital c = capital d \<Longrightarrow> ascii_lower c = ascii_lower d"
  unfolding capital_def ascii_lower_def by (simp split: if_splits; arith)

lemma equal_up_to_case_ascii:
  "is_ascii s \<Longrightarrow> is_ascii t \<Longrightarrow> equal_up_to_case s t \<Longrightarrow> map ascii_lower s = map ascii_lower t"
proof (induction s arbitrary: t)
  case Nil
  then show ?case by (simp add: equal_up_to_case_def)
next
  case (Cons c s)
  from Cons.prems(3) obtain d u where t: "t = d # u"
    by (cases t) (simp_all add: equal_up_to_case_def)
  from Cons.prems(1) have c: "c < 128" and s: "is_ascii s"
    by (simp_all add: is_ascii_def)
  from Cons.prems(2) t have d: "d < 128" and u: "is_ascii u"
    by (simp_all add: is_ascii_def)
  from Cons.prems(3) t have cd: "capital c = capital d" and su: "equal_up_to_case s u"
    by (simp_all add: equal_up_to_case_def)
  from c d cd have l: "ascii_lower c = ascii_lower d" by (rule capital_ascii_lower)
  from s u su have "map ascii_lower s = map ascii_lower u" by (rule Cons.IH)
  with l t show ?case by simp
qed

lemma is_ascii_London: "is_ascii (str ''London'')"
  by (simp add: is_ascii_def str_def)

lemma is_ascii_london: "is_ascii (str ''london'')"
  by (simp add: is_ascii_def str_def)

lemma city_key_London: "city_key ucd (str ''London'') = str ''city_london''"
  by (simp add: city_key_def lower_def is_ascii_def str_def ascii_lower_def)

lemma city_key_london: "city_key ucd (str ''london'') = str ''city_london''"
  by (simp add: city_key_def lower_def is_ascii_def str_def ascii_lower_def)

lemma London_london: "equal_up_to_case (str ''London'') (str ''london'')"
  by (simp add: equal_up_to_case_def capital_def str_def)

lemma coords_key_literal:
  "coords_key repr_literal ''51.5'' ''-0.12'' = str ''coords_51.5_-0.12''"
  by (simp add: coords_key_def repr_literal_def str_def)

lemma tags_differ: "str ''city_'' @ s \<noteq> str ''coords_'' @ t"
  by (simp add: str_def)

lemma takeWhile_until:
  "x \<notin> set a \<Longrightarrow> takeWhile (\<lambda>c. c \<noteq> x) (a @ x # b) = a"
  by (induction a) auto

lemma coords_key_inj:
  assumes "0x5F \<notin> set (fmt lat)" and "0x5F \<notin> set (fmt lat')"
    and "coords_key fmt lat lon = coords_key fmt lat' lon'"
  shows "fmt lat = fmt lat' \<and> fmt lon = fmt lon'"
proof -
  from assms(3) have e: "fmt lat @ 0x5F # fmt lon = fmt lat' @ 0x5F # fmt lon'"
    by (simp add: coords_key_def str_def)
  have a: "takeWhile (\<lambda>c. c \<noteq> 0x5F) (fmt lat @ 0x5F # fmt lon) = fmt lat"
    using assms(1) by (rule takeWhile_until)
  have b: "takeWhile (\<lambda>c. c \<noteq> 0x5F) (fmt lat' @ 0x5F # fmt lon') = fmt lat'"
    using assms(2) by (rule takeWhile_until)
  from e a b have "fmt lat = fmt lat'" by simp
  with e show ?thesis by simp
qed

text \<open>
  C5, as stated, fails: the Greek word for street in capitals and in small letters are
  equal up to letter case, letter by letter, and their keys differ. \<^verbatim>\<open>str.lower()\<close>
  turns the capital sigma at the end of the word into the final sigma U+03C2, and leaves
  the small sigma U+03C3 of the other string as it is.
\<close>

theorem case_equal_cities_different_keys_counterexample:
  "equal_up_to_case odos_capitals odos_small \<and>
   city_key ucd_excerpt odos_capitals = str ''city_'' @ [0x3BF, 0x3B4, 0x3BF, 0x3C2] \<and>
   city_key ucd_excerpt odos_small = str ''city_'' @ [0x3BF, 0x3B4, 0x3BF, 0x3C3] \<and>
   city_key ucd_excerpt odos_capitals \<noteq> city_key ucd_excerpt odos_small"
  by (simp add: equal_up_to_case_def capital_def odos_capitals_def odos_small_def city_key_def
      lower_def is_ascii_def final_sigma_def ucd_excerpt_def)

text \<open>
  C5, amended. The city key is a function of the city string alone, the tag \<^verbatim>\<open>city_\<close>
  followed by the lower-cased string. Two strings of ASCII code points that are equal up
  to letter case have the same key. No city key equals a coordinate key, whatever the
  city, the coordinates and their rendering.
\<close>

theorem fingerprint_keys:
  "(is_ascii s \<and> is_ascii t \<and> equal_up_to_case s t \<longrightarrow> city_key ucd s = city_key ucd t) \<and>
   city_key ucd city \<noteq> coords_key fmt lat lon"
proof -
  have "city_key ucd s = city_key ucd t"
    if "is_ascii s" and "is_ascii t" and "equal_up_to_case s t"
  proof -
    from that have "map ascii_lower s = map ascii_lower t" by (rule equal_up_to_case_ascii)
    with that(1,2) show ?thesis by (simp add: city_key_def lower_def)
  qed
  then have a: "is_ascii s \<and> is_ascii t \<and> equal_up_to_case s t \<longrightarrow> city_key ucd s = city_key ucd t"
    by (intro impI, elim conjE)
  have b: "city_key ucd city \<noteq> coords_key fmt lat lon"
    unfolding city_key_def coords_key_def by (rule tags_differ)
  from a b show ?thesis by (rule conjI)
qed

theorem fingerprint_keys_witness:
  "is_ascii (str ''London'') \<and> is_ascii (str ''london'') \<and>
   equal_up_to_case (str ''London'') (str ''london'') \<and>
   city_key ucd_excerpt (str ''London'') = city_key ucd_excerpt (str ''london'') \<and>
   city_key ucd_excerpt (str ''london'') = str ''city_london'' \<and>
   city_key ucd_excerpt (str ''London'') \<noteq> coords_key repr_literal ''51.5'' ''-0.12''"
proof -
  have a: "city_key ucd_excerpt (str ''London'') = city_key ucd_excerpt (str ''london'')"
    using fingerprint_keys [of "str ''London''" "str ''london''" ucd_excerpt, THEN conjunct1]
          London_london is_ascii_London is_ascii_london
    by (simp only: simp_thms)
  have b: "city_key ucd_excerpt (str ''London'') \<noteq> coords_key repr_literal ''51.5'' ''-0.12''"
    using fingerprint_keys [of _ _ ucd_excerpt "str ''London''" repr_literal "''51.5''" "''-0.12''"]
    by (rule conjunct2)
  from a b London_london is_ascii_London is_ascii_london city_key_london [of ucd_excerpt]
  show ?thesis by (simp only: simp_thms)
qed

text \<open>
  C6, as stated, fails: the key holds each value as Python renders it, with as many
  digits as the value needs and not with a fixed number of them. 51.5 and -0.12 give
  \<^verbatim>\<open>coords_51.5_-0.12\<close>, with one and two digits after the point;
  0.30000000000000004 and 1e-07 give seventeen digits and none.
\<close>

theorem coords_key_not_fixed_precision_counterexample:
  "coords_key repr_literal ''51.5'' ''-0.12'' = str ''coords_51.5_-0.12'' \<and>
   fraction_digits (repr_literal ''51.5'') = 1 \<and>
   fraction_digits (repr_literal ''-0.12'') = 2 \<and>
   coords_key repr_literal ''0.30000000000000004'' ''1e-07''
     = str ''coords_0.30000000000000004_1e-07'' \<and>
   fraction_digits (repr_literal ''0.30000000000000004'') = 17 \<and>
   fraction_digits (repr_literal ''1e-07'') = 0"
  by (simp add: coords_key_def repr_literal_def fraction_digits_def str_def)

text \<open>
  C6, amended. The coordinate key is the tag \<^verbatim>\<open>coords_\<close>, then the rendering of the
  latitude, an underscore and the rendering of the longitude, each rendering whole and
  as Python gives it. It is never a city key. Two pairs of coordinates with the same key
  have the same renderings, as long as no underscore occurs in the rendering of a
  latitude (none occurs in the text of a float).
\<close>

theorem coords_key_rendering:
  "take 7 (coords_key fmt lat lon) = str ''coords_'' \<and>
   drop 7 (coords_key fmt lat lon) = fmt lat @ str ''_'' @ fmt lon \<and>
   coords_key fmt lat lon \<noteq> city_key ucd city \<and>
   (0x5F \<notin> set (fmt lat) \<and> 0x5F \<notin> set (fmt lat') \<and>
    coords_key fmt lat lon = coords_key fmt lat' lon'
    \<longrightarrow> fmt lat = fmt lat' \<and> fmt lon = fmt lon')"
proof -
  have a: "take 7 (coords_key fmt lat lon) = str ''coords_''"
    by (simp add: coords_key_def str_def)
  have b: "drop 7 (coords_key fmt lat lon) = fmt lat @ str ''_'' @ fmt lon"
    by (simp add: coords_key_def str_def)
  have c: "coords_key fmt lat lon \<noteq> city_key ucd city"
    using tags_differ [of "lower ucd city" "fmt lat @ str ''_'' @ fmt lon"]
    by (simp add: coords_key_def city_key_def)
  have d: "0x5F \<notin> set (fmt lat) \<and> 0x5F \<notin> set (fmt lat') \<and>
    coords_key fmt lat lon = coords_key fmt lat' lon'
    \<longrightarrow> fmt lat = fmt lat' \<and> fmt lon = fmt lon'"
    by (intro impI, elim conjE, rule coords_key_inj)
  show ?thesis
    by (rule conjI [OF a conjI [OF b conjI [OF c d]]])
qed

theorem coords_key_rendering_witness:
  "0x5F \<notin> set (repr_literal ''51.5'') \<and>
   coords_key repr_literal ''51.5'' ''-0.12'' = str ''coords_51.5_-0.12'' \<and>
   take 7 (coords_key repr_literal ''51.5'' ''-0.12'') = str ''coords_'' \<and>
   drop 7 (coords_key repr_literal ''51.5'' ''-0.12'') = str ''51.5_-0.12'' \<and>
   coords_key repr_literal ''51.5'' ''-0.12'' \<noteq> city_key ucd_excerpt (str ''London'') \<and>
   repr_literal ''51.5'' = str ''51.5'' \<and> repr_literal ''-0.12'' = str ''-0.12''"
proof -
  note t = coords_key_rendering [of repr_literal "''51.5''" "''-0.12''" ucd_excerpt
      "str ''London''" "''51.5''" "''-0.12''"]
  have u: "0x5F \<notin> set (repr_literal ''51.5'')"
    by (simp add: repr_literal_def str_def)
  have r: "repr_literal ''51.5'' = str ''51.5''" "repr_literal ''-0.12'' = str ''-0.12''"
    by (simp_all add: repr_literal_def)
  from t have a: "take 7 (coords_key repr_literal ''51.5'' ''-0.12'') = str ''coords_''"
    by (rule conjunct1)
  from t have b: "drop 7 (coords_key repr_literal ''51.5'' ''-0.12'')
      = repr_literal ''51.5'' @ str ''_'' @ repr_literal ''-0.12''"
    by (rule conjunct2 [THEN conjunct1])
  from t have c: "coords_key repr_literal ''51.5'' ''-0.12'' \<noteq> city_key ucd_excerpt (str ''London'')"
    by (rule conjunct2 [THEN conjunct2, THEN conjunct1])
  have b': "drop 7 (coords_key repr_literal ''51.5'' ''-0.12'') = str ''51.5_-0.12''"
    using b by (simp add: repr_literal_def str_def)
  from u a b' c r coords_key_literal show ?thesis
    by (simp only: simp_thms)
qed

section \<open>The client\<close>

lemma strip_empty_iff: "strip s = [] \<longleftrightarrow> (\<forall>ch\<in>set s. isspace ch)"
proof
  assume "strip s = []"
  then have a: "\<forall>ch\<in>set (dropWhile isspace s). isspace ch"
    by (simp add: strip_def)
  have "dropWhile isspace s = []"
  proof (rule ccontr)
    assume n: "dropWhile isspace s \<noteq> []"
    then have "\<not> isspace (hd (dropWhile isspace s))" by (rule hd_dropWhile)
    moreover from n have "hd (dropWhile isspace s) \<in> set (dropWhile isspace s)" by simp
    ultimately show False using a by simp
  qed
  then show "\<forall>ch\<in>set s. isspace ch" by simp
next
  assume "\<forall>ch\<in>set s. isspace ch"
  then have e: "dropWhile isspace s = []" by simp
  show "strip s = []" unfolding strip_def e by simp
qed

text \<open>
  C9. A city that consists of white space only, the empty string included, is rejected
  with \<^verbatim>\<open>WeatherAPIError("City name cannot be empty")\<close>; the cache and the list of
  requests sent are those before the call.
\<close>

theorem empty_city_rejected:
  "\<forall>ch\<in>set city. isspace ch \<Longrightarrow>
   get_weather_by_city cfg ucd http now1 now2 city w
     = (Inl (WeatherAPIError ''City name cannot be empty''), w)"
  by (simp add: get_weather_by_city_def strip_empty_iff)

lemma blank_isspace: "\<forall>ch\<in>set (str '' ''). isspace ch"
  by (simp add: isspace_def str_def)

lemma wide_blank_isspace: "\<forall>ch\<in>set [0xA0, 0x3000, 0x09]. isspace ch"
  by (simp add: isspace_def)

theorem empty_city_rejected_witness:
  "list_all isspace (str '' '') \<and>
   get_weather_by_city CACHE_CONFIG ucd_excerpt timed_out 0 1 (str '' '') world0
     = (Inl (WeatherAPIError ''City name cannot be empty''), world0) \<and>
   get_weather_by_city CACHE_CONFIG ucd_excerpt timed_out 0 1 [] world0
     = (Inl (WeatherAPIError ''City name cannot be empty''), world0) \<and>
   list_all isspace [0xA0, 0x3000, 0x09] \<and>
   get_weather_by_city CACHE_CONFIG ucd_excerpt timed_out 0 1 [0xA0, 0x3000, 0x09] world0
     = (Inl (WeatherAPIError ''City name cannot be empty''), world0)"
  using empty_city_rejected [of "str '' ''" CACHE_CONFIG ucd_excerpt timed_out 0 1 world0]
        empty_city_rejected [of "[]" CACHE_CONFIG ucd_excerpt timed_out 0 1 world0]
        empty_city_rejected [of "[0xA0, 0x3000, 0x09]" CACHE_CONFIG ucd_excerpt timed_out 0 1 world0]
        blank_isspace wide_blank_isspace
  by (simp add: list_all_iff)

subsection \<open>The two paths of a call\<close>

lemma sent_fetch_city:
  "sent (snd (fetch_city ucd http now city w)) = sent w @ [CityQuery city]"
  by (simp add: fetch_city_def Let_def split: http_result.splits sum.splits)

lemma sent_fetch_coordinates:
  "sent (snd (fetch_coordinates fmt http now lat lon w)) = sent w @ [CoordsQuery lat lon]"
  by (simp add: fetch_coordinates_def Let_def split: http_result.splits sum.splits)



lemma city_fresh:
  assumes "strip city \<noteq> []" and "cache w (city_key ucd city) = Some e"
    and "now1 - timestamp e \<le> timedelta_seconds 300"
  shows "get_weather_by_city cfg ucd http now1 now2 city w =
     (if data e \<noteq> [] then (Inr (data e), w) else fetch_city ucd http now2 city w)"
  using assms by (simp add: get_weather_by_city_def get_cached_data_def)

lemma coordinates_fresh:
  assumes "cache w (coords_key fmt lat lon) = Some e"
    and "now1 - timestamp e \<le> timedelta_seconds 300"
  shows "get_weather_by_coordinates cfg fmt http now1 now2 lat lon w =
     (if data e \<noteq> [] then (Inr (data e), w) else fetch_coordinates fmt http now2 lat lon w)"
  using assms by (simp add: get_weather_by_coordinates_def get_cached_data_def)







lemma strip_London: "strip (str ''London'') = str ''London''"
  by (simp add: strip_def isspace_def str_def)

lemma strip_Paris: "strip (str ''Paris'') = str ''Paris''"
  by (simp add: strip_def isspace_def str_def)

lemma city_key_Paris: "city_key ucd (str ''Paris'') = str ''city_paris''"
  by (simp add: city_key_def lower_def is_ascii_def str_def ascii_lower_def)

text \<open>
  C10. A fresh entry whose stored dict is empty is not served: the call goes on exactly as
  after a miss and sends the upstream request. A fresh entry whose dict is not empty is
  returned, and nothing is sent. Both lookups behave so.
\<close>

theorem falsy_entry_is_miss:
  "(strip city \<noteq> [] \<and> cache w (city_key ucd city) = Some e \<and>
    now1 - timestamp e \<le> timedelta_seconds 300 \<and> data e = []
    \<longrightarrow> get_weather_by_city cfg ucd http now1 now2 city w = fetch_city ucd http now2 city w \<and>
        sent (snd (get_weather_by_city cfg ucd http now1 now2 city w))
          = sent w @ [CityQuery city]) \<and>
   (strip city \<noteq> [] \<and> cache w (city_key ucd city) = Some e \<and>
    now1 - timestamp e \<le> timedelta_seconds 300 \<and> data e \<noteq> []
    \<longrightarrow> get_weather_by_city cfg ucd http now1 now2 city w = (Inr (data e), w)) \<and>
   (cache w (coords_key fmt lat lon) = Some e \<and>
    now1 - timestamp e \<le> timedelta_seconds 300 \<and> data e = []
    \<longrightarrow> get_weather_by_coordinates cfg fmt http now1 now2 lat lon w
          = fetch_coordinates fmt http now2 lat lon w \<and>
        sent (snd (get_weather_by_coordinates cfg fmt http now1 now2 lat lon w))
          = sent w @ [CoordsQuery lat lon]) \<and>
   (cache w (coords_key fmt lat lon) = Some e \<and>
    now1 - timestamp e \<le> timedelta_seconds 300 \<and> data e \<noteq> []
    \<longrightarrow> get_weather_by_coordinates cfg fmt http now1 now2 lat lon w = (Inr (data e), w))"
  by (simp add: city_fresh coordinates_fresh sent_fetch_city sent_fetch_coordinates)

theorem falsy_entry_is_miss_witness:
  "get_weather_by_city CACHE_CONFIG ucd_excerpt answers 5 6 (str ''London'') world_empty_entry
     = (Inr paris, \<lparr>cache = cache_data 6 (str ''city_london'') paris (cache world_empty_entry),
                    sent = [CityQuery (str ''London'')]\<rparr>) \<and>
   get_weather_by_city CACHE_CONFIG ucd_excerpt answers 5 6 (str ''London'') world0
     = (Inr london, world0) \<and>
   get_weather_by_coordinates CACHE_CONFIG repr_literal answers 5 6 ''51.5'' ''-0.12''
       world_empty_entry
     = (Inr paris,
        \<lparr>cache = cache_data 6 (str ''coords_51.5_-0.12'') paris (cache world_empty_entry),
         sent = [CoordsQuery ''51.5'' ''-0.12'']\<rparr>) \<and>
   get_weather_by_coordinates CACHE_CONFIG repr_literal answers 5 6 ''51.5'' ''-0.12''
       world_coords
     = (Inr london, world_coords)"
proof -
  let ?e = "\<lparr>data = [] :: nat pydict, timestamp = 0\<rparr>"
  let ?f = "\<lparr>data = london, timestamp = 0\<rparr>"
  have ne: "london \<noteq> []" by (simp add: london_def)
  have fr: "(5 :: int) - timestamp ?e \<le> timedelta_seconds 300"
      "(5 :: int) - timestamp ?f \<le> timedelta_seconds 300"
    by (simp_all add: timedelta_seconds_def)
  have s: "strip (str ''London'') \<noteq> []" by (simp add: strip_London)
  have k: "cache world_empty_entry (city_key ucd_excerpt (str ''London'')) = Some ?e"
    by (simp add: city_key_London world_empty_entry_def cache_data_def)
  have a: "get_weather_by_city CACHE_CONFIG ucd_excerpt answers 5 6 (str ''London'')
        world_empty_entry
     = fetch_city ucd_excerpt answers 6 (str ''London'') world_empty_entry"
    using falsy_entry_is_miss [where city = "str ''London''" and w = world_empty_entry
        and e = ?e and ?now1.0 = 5 and cfg = CACHE_CONFIG and ucd = ucd_excerpt
        and http = answers and ?now2.0 = 6, THEN conjunct1] s k fr(1)
    by simp
  have a': "fetch_city ucd_excerpt answers 6 (str ''London'') world_empty_entry
     = (Inr paris, \<lparr>cache = cache_data 6 (str ''city_london'') paris (cache world_empty_entry),
                    sent = [CityQuery (str ''London'')]\<rparr>)"
    by (simp add: fetch_city_def answers_def city_key_London world_empty_entry_def)
  have k2: "cache world0 (city_key ucd_excerpt (str ''London'')) = Some ?f"
    by (simp add: city_key_London world0_def cache0_def cache_data_def)
  have b: "get_weather_by_city CACHE_CONFIG ucd_excerpt answers 5 6 (str ''London'') world0
      = (Inr london, world0)"
    using falsy_entry_is_miss [where city = "str ''London''" and w = world0
        and e = ?f and ?now1.0 = 5 and cfg = CACHE_CONFIG and ucd = ucd_excerpt
        and http = answers and ?now2.0 = 6, THEN conjunct2, THEN conjunct1] s k2 fr(2) ne
    by simp
  have k3: "cache world_empty_entry (coords_key repr_literal ''51.5'' ''-0.12'') = Some ?e"
    by (simp add: coords_key_literal world_empty_entry_def cache_data_def)
  have c: "get_weather_by_coordinates CACHE_CONFIG repr_literal answers 5 6 ''51.5'' ''-0.12''
        world_empty_entry
     = fetch_coordinates repr_literal answers 6 ''51.5'' ''-0.12'' world_empty_entry"
    using falsy_entry_is_miss [where w = world_empty_entry and e = ?e and ?now1.0 = 5
        and fmt = repr_literal and lat = "''51.5''" and lon = "''-0.12''" and cfg = CACHE_CONFIG
        and http = answers and ?now2.0 = 6,
        THEN conjunct2, THEN conjunct2, THEN conjunct1] k3 fr(1)
    by simp
  have c': "fetch_coordinates repr_literal answers 6 ''51.5'' ''-0.12'' world_empty_entry
     = (Inr paris,
        \<lparr>cache = cache_data 6 (str ''coords_51.5_-0.12'') paris (cache world_empty_entry),
         sent = [CoordsQuery ''51.5'' ''-0.12'']\<rparr>)"
    by (simp add: fetch_coordinates_def answers_def coords_key_literal world_empty_entry_def)
  have k4: "cache world_coords (coords_key repr_literal ''51.5'' ''-0.12'') = Some ?f"
    by (simp add: coords_key_literal world_coords_def cache_data_def)
  have d: "get_weather_by_coordinates CACHE_CONFIG repr_literal answers 5 6 ''51.5'' ''-0.12''
        world_coords = (Inr london, world_coords)"
    using falsy_entry_is_miss [where w = world_coords and e = ?f and ?now1.0 = 5
        and fmt = repr_literal and lat = "''51.5''" and lon = "''-0.12''" and cfg = CACHE_CONFIG
        and http = answers and ?now2.0 = 6,
        THEN conjunct2, THEN conjunct2, THEN conjunct2] k4 fr(2) ne
    by simp
  from a a' b c c' d show ?thesis by (simp only: simp_thms)
qed





text \<open>
  C7, as stated, fails: with \<^verbatim>\<open>ENABLED\<close> false, a fresh entry is still served from the
  cache and no request is sent, and a successful fetch is still stored.
\<close>

theorem disabled_cache_still_used_counterexample:
  "\<not> ENABLED cache_off \<and>
   get_weather_by_city cache_off ucd_excerpt timed_out (timedelta_seconds 299) (timedelta_seconds 300)
       (str ''London'') world0 = (Inr london, world0) \<and>
   sent (snd (get_weather_by_city cache_off ucd_excerpt timed_out (timedelta_seconds 299)
                (timedelta_seconds 300) (str ''London'') world0)) = [] \<and>
   cache (snd (get_weather_by_city cache_off ucd_excerpt answers 0 1 (str ''Paris'') world_new)) (str ''city_paris'')
     = Some \<lparr>data = paris, timestamp = 1\<rparr>"
proof -
  have a: "\<not> ENABLED cache_off" by (simp add: cache_off_def CACHE_CONFIG_def)
  have k: "cache world0 (city_key ucd_excerpt (str ''London'')) = Some \<lparr>data = london, timestamp = 0\<rparr>"
    by (simp add: city_key_London world0_def cache0_def cache_data_def)
  have b: "get_weather_by_city cache_off ucd_excerpt timed_out (timedelta_seconds 299) (timedelta_seconds 300)
       (str ''London'') world0 = (Inr london, world0)"
    using city_fresh [of "str ''London''" world0 ucd_excerpt "\<lparr>data = london, timestamp = 0\<rparr>"
        "timedelta_seconds 299" cache_off timed_out "timedelta_seconds 300"] k
    by (simp add: strip_London timedelta_seconds_def london_def)
  have c: "get_weather_by_city cache_off ucd_excerpt answers 0 1 (str ''Paris'') world_new
     = (Inr paris, \<lparr>cache = cache_data 1 (str ''city_paris'') paris Map.empty,
                    sent = [CityQuery (str ''Paris'')]\<rparr>)"
    by (simp add: get_weather_by_city_def strip_Paris city_key_Paris get_cached_data_def
        fetch_city_def answers_def world_new_def)
  from a b c show ?thesis by (simp add: world0_def cache_data_def)
qed

text \<open>
  C7, amended. The client does not read the cache configuration: with any configuration it
  does what it does with the shipped one. With \<^verbatim>\<open>ENABLED\<close> false too, a fresh entry with
  a non-empty dict is served from the cache without a request, and after a miss the
  result of a successful fetch is stored under the request's key.
\<close>

theorem cache_config_ignored:
  "get_weather_by_city cfg ucd http now1 now2 city w
     = get_weather_by_city CACHE_CONFIG ucd http now1 now2 city w \<and>
   get_weather_by_coordinates cfg fmt http now1 now2 lat lon w
     = get_weather_by_coordinates CACHE_CONFIG fmt http now1 now2 lat lon w \<and>
   (\<not> ENABLED cfg \<and> strip city \<noteq> [] \<and> cache w (city_key ucd city) = Some e \<and>
    now1 - timestamp e \<le> timedelta_seconds 300 \<and> data e \<noteq> []
    \<longrightarrow> get_weather_by_city cfg ucd http now1 now2 city w = (Inr (data e), w)) \<and>
   (\<not> ENABLED cfg \<and> cache w (coords_key fmt lat lon) = Some e \<and>
    now1 - timestamp e \<le> timedelta_seconds 300 \<and> data e \<noteq> []
    \<longrightarrow> get_weather_by_coordinates cfg fmt http now1 now2 lat lon w = (Inr (data e), w)) \<and>
   (\<not> ENABLED cfg \<and> strip city \<noteq> [] \<and> cache w (city_key ucd city) = None \<and>
    http (CityQuery city) = Json b \<and> cod_is_200 b \<and> processed b = Inr d
    \<longrightarrow> get_weather_by_city cfg ucd http now1 now2 city w
          = (Inr d, \<lparr>cache = cache_data now2 (city_key ucd city) d (cache w),
                     sent = sent w @ [CityQuery city]\<rparr>)) \<and>
   (\<not> ENABLED cfg \<and> cache w (coords_key fmt lat lon) = None \<and>
    http (CoordsQuery lat lon) = Json b \<and> processed b = Inr d
    \<longrightarrow> get_weather_by_coordinates cfg fmt http now1 now2 lat lon w
          = (Inr d, \<lparr>cache = cache_data now2 (coords_key fmt lat lon) d (cache w),
                     sent = sent w @ [CoordsQuery lat lon]\<rparr>))"
proof -
  have p1: "get_weather_by_city cfg ucd http now1 now2 city w
     = get_weather_by_city CACHE_CONFIG ucd http now1 now2 city w"
    by (simp add: get_weather_by_city_def)
  have p2: "get_weather_by_coordinates cfg fmt http now1 now2 lat lon w
     = get_weather_by_coordinates CACHE_CONFIG fmt http now1 now2 lat lon w"
    by (simp add: get_weather_by_coordinates_def)
  have p3: "\<not> ENABLED cfg \<and> strip city \<noteq> [] \<and> cache w (city_key ucd city) = Some e \<and>
    now1 - timestamp e \<le> timedelta_seconds 300 \<and> data e \<noteq> []
    \<longrightarrow> get_weather_by_city cfg ucd http now1 now2 city w = (Inr (data e), w)"
    by (simp add: city_fresh)
  have p4: "\<not> ENABLED cfg \<and> cache w (coords_key fmt lat lon) = Some e \<and>
    now1 - timestamp e \<le> timedelta_seconds 300 \<and> data e \<noteq> []
    \<longrightarrow> get_weather_by_coordinates cfg fmt http now1 now2 lat lon w = (Inr (data e), w)"
    by (simp add: coordinates_fresh)
  have p5: "\<not> ENABLED cfg \<and> strip city \<noteq> [] \<and> cache w (city_key ucd city) = None \<and>
    http (CityQuery city) = Json b \<and> cod_is_200 b \<and> processed b = Inr d
    \<longrightarrow> get_weather_by_city cfg ucd http now1 now2 city w
          = (Inr d, \<lparr>cache = cache_data now2 (city_key ucd city) d (cache w),
                     sent = sent w @ [CityQuery city]\<rparr>)"
    by (simp add: get_weather_by_city_def get_cached_data_def fetch_city_def)
  have p6: "\<not> ENABLED cfg \<and> cache w (coords_key fmt lat lon) = None \<and>
    http (CoordsQuery lat lon) = Json b \<and> processed b = Inr d
    \<longrightarrow> get_weather_by_coordinates cfg fmt http now1 now2 lat lon w
          = (Inr d, \<lparr>cache = cache_data now2 (coords_key fmt lat lon) d (cache w),
                     sent = sent w @ [CoordsQuery lat lon]\<rparr>)"
    by (simp add: get_weather_by_coordinates_def get_cached_data_def fetch_coordinates_def)
  show ?thesis
    by (rule conjI [OF p1 conjI [OF p2 conjI [OF p3 conjI [OF p4 conjI [OF p5 p6]]]]])
qed

theorem cache_config_ignored_witness:
  "\<not> ENABLED cache_off \<and>
   get_weather_by_city cache_off ucd_excerpt timed_out (timedelta_seconds 299) (timedelta_seconds 300)
       (str ''London'') world0 = (Inr london, world0) \<and>
   get_weather_by_coordinates cache_off repr_literal timed_out (timedelta_seconds 299)
       (timedelta_seconds 300) ''51.5'' ''-0.12'' world_coords = (Inr london, world_coords) \<and>
   get_weather_by_city cache_off ucd_excerpt answers 0 1 (str ''Paris'') world_new
     = (Inr paris, \<lparr>cache = cache_data 1 (str ''city_paris'') paris Map.empty,
                    sent = [CityQuery (str ''Paris'')]\<rparr>) \<and>
   get_weather_by_coordinates cache_off repr_literal answers 0 1 ''51.5'' ''-0.12'' world_new
     = (Inr paris, \<lparr>cache = cache_data 1 (str ''coords_51.5_-0.12'') paris Map.empty,
                    sent = [CoordsQuery ''51.5'' ''-0.12'']\<rparr>)"
proof -
  let ?e = "\<lparr>data = london, timestamp = 0\<rparr>"
  let ?b = "\<lparr>cod_is_200 = True, message = [], processed = Inr paris\<rparr>"
  have off: "\<not> ENABLED cache_off" by (simp add: cache_off_def CACHE_CONFIG_def)
  have ne: "london \<noteq> []" by (simp add: london_def)
  have fr: "timedelta_seconds 299 - timestamp ?e \<le> timedelta_seconds 300"
    by (simp add: timedelta_seconds_def)
  have k1: "cache world0 (city_key ucd_excerpt (str ''London'')) = Some ?e"
    by (simp add: city_key_London world0_def cache0_def cache_data_def)
  have k2: "cache world_coords (coords_key repr_literal ''51.5'' ''-0.12'') = Some ?e"
    by (simp add: coords_key_literal world_coords_def cache_data_def)
  have k3: "cache world_new (city_key ucd_excerpt (str ''Paris'')) = None"
    by (simp add: world_new_def)
  have k4: "cache world_new (coords_key repr_literal ''51.5'' ''-0.12'') = None"
    by (simp add: world_new_def)
  have a: "get_weather_by_city cache_off ucd_excerpt timed_out (timedelta_seconds 299) (timedelta_seconds 300)
       (str ''London'') world0 = (Inr london, world0)"
    using cache_config_ignored [where cfg = cache_off and ucd = ucd_excerpt and city = "str ''London''" and w = world0
        and e = ?e and ?now1.0 = "timedelta_seconds 299" and http = timed_out
        and ?now2.0 = "timedelta_seconds 300", THEN conjunct2, THEN conjunct2, THEN conjunct1] off ne fr k1
    by (simp add: strip_London)
  have b: "get_weather_by_coordinates cache_off repr_literal timed_out (timedelta_seconds 299)
       (timedelta_seconds 300) ''51.5'' ''-0.12'' world_coords = (Inr london, world_coords)"
    using cache_config_ignored [where cfg = cache_off and ucd = ucd_excerpt and w = world_coords
        and e = ?e and ?now1.0 = "timedelta_seconds 299" and http = timed_out
        and ?now2.0 = "timedelta_seconds 300" and fmt = repr_literal and lat = "''51.5''"
        and lon = "''-0.12''", THEN conjunct2, THEN conjunct2, THEN conjunct2, THEN conjunct1] off ne fr k2
    by simp
  have c: "get_weather_by_city cache_off ucd_excerpt answers 0 1 (str ''Paris'') world_new
     = (Inr paris, \<lparr>cache = cache_data 1 (city_key ucd_excerpt (str ''Paris'')) paris (cache world_new),
                    sent = sent world_new @ [CityQuery (str ''Paris'')]\<rparr>)"
    using cache_config_ignored [where cfg = cache_off and ucd = ucd_excerpt and city = "str ''Paris''" and w = world_new
        and ?now1.0 = 0 and http = answers and ?now2.0 = 1 and b = ?b and d = paris, THEN conjunct2, THEN conjunct2, THEN conjunct2, THEN conjunct2, THEN conjunct1] off k3
    by (simp add: strip_Paris answers_def)
  have d: "get_weather_by_coordinates cache_off repr_literal answers 0 1 ''51.5'' ''-0.12'' world_new
     = (Inr paris, \<lparr>cache = cache_data 1 (coords_key repr_literal ''51.5'' ''-0.12'') paris
                              (cache world_new),
                    sent = sent world_new @ [CoordsQuery ''51.5'' ''-0.12'']\<rparr>)"
    using cache_config_ignored [where cfg = cache_off and ucd = ucd_excerpt and w = world_new
        and ?now1.0 = 0 and http = answers and ?now2.0 = 1 and b = ?b and d = paris
        and fmt = repr_literal and lat = "''51.5''" and lon = "''-0.12''", THEN conjunct2, THEN conjunct2, THEN conjunct2, THEN conjunct2, THEN conjunct2] off k4
    by (simp add: answers_def)
  have w: "cache world_new = Map.empty" "sent world_new = []"
    by (simp_all add: world_new_def)
  note ck = coords_key_literal
  from off a b c d show ?thesis
    by (simp add: w ck city_key_Paris)
qed

end
